theory Spec2Isabelle
  imports Complex_Main
begin

section \<open>Wasabi distortion processor: parameters and presets\<close>

text \<open>
  The model follows \<^verbatim>\<open>Source/PluginProcessor.cpp\<close>. C++ \<^verbatim>\<open>float\<close> values are
  modelled as \<^typ>\<open>real\<close>: every arithmetic operation is the exact one and rounding
  is not modelled. Overflow to an infinity and NaN are modelled where a property depends
  on them: the waveshaper has a second embedding over binary32 values with infinities
  and NaN. C++ \<^verbatim>\<open>int\<close> values are modelled as \<^typ>\<open>int\<close>; no operation of the
  modelled code can overflow (the only integer arithmetic is \<^verbatim>\<open>getNumPrograms() - 1\<close>).
\<close>

subsection \<open>Library helpers used by the processor\<close>

text \<open>
  \<^verbatim>\<open>juce::jlimit (lowerLimit, upperLimit, valueToConstrain)\<close>:
  \<^verbatim>\<open>v < lo ? lo : (hi < v ? hi : v)\<close>.
\<close>

definition jlimit :: "'a::linorder \<Rightarrow> 'a \<Rightarrow> 'a \<Rightarrow> 'a" where
  "jlimit lowerLimit upperLimit v =
     (if v < lowerLimit then lowerLimit else if upperLimit < v then upperLimit else v)"

text \<open>\<^verbatim>\<open>static_cast<int>\<close> of a float: the fractional part is discarded (truncation
  towards zero).\<close>

definition static_cast_int :: "real \<Rightarrow> int" where
  "static_cast_int r = (if 0 \<le> r then \<lfloor>r\<rfloor> else \<lceil>r\<rceil>)"

subsection \<open>Parameter identifiers and layout\<close>

text \<open>The ten identifiers of namespace \<^verbatim>\<open>ParamIDs\<close>.\<close>

datatype param_id =
    Drive | Range | Blend | Volume | MidFreq | MidGain
  | HighPassFreq | LowPassFreq | DistortionType | Bypass

text \<open>\<^verbatim>\<open>createParameterLayout\<close>: declared minimum and maximum of each parameter
  (the boolean bypass parameter ranges over 0 and 1), and its default.\<close>

fun param_min :: "param_id \<Rightarrow> real" where
  "param_min Drive = 0.0"
| "param_min Range = 0.0"
| "param_min Blend = 0.0"
| "param_min Volume = 0.0"
| "param_min MidFreq = 500.0"
| "param_min MidGain = 0.0"
| "param_min HighPassFreq = 50.0"
| "param_min LowPassFreq = 2000.0"
| "param_min DistortionType = 0.0"
| "param_min Bypass = 0.0"

fun param_max :: "param_id \<Rightarrow> real" where
  "param_max Drive = 2.0"
| "param_max Range = 5.0"
| "param_max Blend = 1.0"
| "param_max Volume = 2.0"
| "param_max MidFreq = 2000.0"
| "param_max MidGain = 12.0"
| "param_max HighPassFreq = 500.0"
| "param_max LowPassFreq = 12000.0"
| "param_max DistortionType = 1.0"
| "param_max Bypass = 1.0"

fun param_default :: "param_id \<Rightarrow> real" where
  "param_default Drive = 0.5"
| "param_default Range = 1.0"
| "param_default Blend = 0.8"
| "param_default Volume = 1.0"
| "param_default MidFreq = 1000.0"
| "param_default MidGain = 6.0"
| "param_default HighPassFreq = 100.0"
| "param_default LowPassFreq = 6000.0"
| "param_default DistortionType = 0.0"
| "param_default Bypass = 0.0"

subsection \<open>The parameter store\<close>

text \<open>
  \<^verbatim>\<open>juce::AudioProcessorValueTreeState parameters\<close>: the raw (denormalised) value of
  every parameter, as read by \<^verbatim>\<open>getRawParameterValue\<close>, and the property
  \<^verbatim>\<open>"currentProgram"\<close> of the state tree, which is absent until it is first set.
\<close>

record parameter_store =
  rawValue :: "param_id \<Rightarrow> real"
  currentProgram :: "int option"

definition initial_store :: parameter_store where
  "initial_store = \<lparr> rawValue = param_default, currentProgram = None \<rparr>"

text \<open>
  Modelled from the spec: the parameter objects (\<^verbatim>\<open>juce::AudioParameterFloat\<close>) are
  not part of the sources. \<section>4.1 has \<^verbatim>\<open>set\<close> clamp the value to the declared range and
  commit it; \<section>6 gives the ranges. \<^verbatim>\<open>convertTo0to1\<close> clamps a value to the declared
  range and maps it linearly to [0, 1].
\<close>

definition convertTo0to1 :: "param_id \<Rightarrow> real \<Rightarrow> real" where
  "convertTo0to1 pid v =
     (jlimit (param_min pid) (param_max pid) v - param_min pid) / (param_max pid - param_min pid)"

text \<open>
  Modelled from the spec: the inverse map of the parameter objects, from [0, 1] linearly
  back to the declared range of \<section>6.
\<close>

definition convertFrom0to1 :: "param_id \<Rightarrow> real \<Rightarrow> real" where
  "convertFrom0to1 pid n =
     param_min pid + (param_max pid - param_min pid) * jlimit 0 1 n"

text \<open>
  Modelled from the spec: \<^verbatim>\<open>param->setValueNotifyingHost (normalised)\<close> commits the
  value (\<section>4.1): the raw value of that parameter becomes the denormalised one, and no
  other value changes.
\<close>

definition setValueNotifyingHost :: "param_id \<Rightarrow> real \<Rightarrow> parameter_store \<Rightarrow> parameter_store" where
  "setValueNotifyingHost pid n s = s\<lparr> rawValue := (rawValue s)(pid := convertFrom0to1 pid n) \<rparr>"

text \<open>The lambda \<^verbatim>\<open>setParamValue\<close> of \<^verbatim>\<open>setCurrentProgram\<close>; every identifier it is
  called with names a parameter of the layout, so the null check always succeeds.\<close>

definition setParamValue :: "param_id \<Rightarrow> real \<Rightarrow> parameter_store \<Rightarrow> parameter_store" where
  "setParamValue pid v s = setValueNotifyingHost pid (convertTo0to1 pid v) s"

subsection \<open>Programs (presets)\<close>

definition getNumPrograms :: int where
  "getNumPrograms = 5"

text \<open>\<^verbatim>\<open>parameters.state.getProperty ("currentProgram", 0)\<close>: the default 0 is returned
  while the property is absent.\<close>

definition getCurrentProgram :: "parameter_store \<Rightarrow> int" where
  "getCurrentProgram s = (case currentProgram s of None \<Rightarrow> 0 | Some i \<Rightarrow> i)"

text \<open>The bodies of the five \<^verbatim>\<open>case\<close> labels of the \<^verbatim>\<open>switch (index)\<close>, each a
  sequence of nine \<^verbatim>\<open>setParamValue\<close> calls, in source order.\<close>

definition case0 :: "parameter_store \<Rightarrow> parameter_store" where
  "case0 s = (
     let s = setParamValue Drive 1.0 s;
         s = setParamValue Range 2.0 s;
         s = setParamValue Blend 0.9 s;
         s = setParamValue Volume 1.0 s;
         s = setParamValue MidFreq 1000.0 s;
         s = setParamValue MidGain 6.0 s;
         s = setParamValue HighPassFreq 100.0 s;
         s = setParamValue LowPassFreq 6000.0 s;
         s = setParamValue DistortionType 0.0 s
     in s)"

definition case1 :: "parameter_store \<Rightarrow> parameter_store" where
  "case1 s = (
     let s = setParamValue Drive 1.5 s;
         s = setParamValue Range 3.0 s;
         s = setParamValue Blend 0.95 s;
         s = setParamValue Volume 1.2 s;
         s = setParamValue MidFreq 800.0 s;
         s = setParamValue MidGain 8.0 s;
         s = setParamValue HighPassFreq 150.0 s;
         s = setParamValue LowPassFreq 5000.0 s;
         s = setParamValue DistortionType 0.5 s
     in s)"

definition case2 :: "parameter_store \<Rightarrow> parameter_store" where
  "case2 s = (
     let s = setParamValue Drive 1.2 s;
         s = setParamValue Range 2.5 s;
         s = setParamValue Blend 0.9 s;
         s = setParamValue Volume 1.3 s;
         s = setParamValue MidFreq 1200.0 s;
         s = setParamValue MidGain 7.0 s;
         s = setParamValue HighPassFreq 120.0 s;
         s = setParamValue LowPassFreq 7000.0 s;
         s = setParamValue DistortionType 1.0 s
     in s)"

definition case3 :: "parameter_store \<Rightarrow> parameter_store" where
  "case3 s = (
     let s = setParamValue Drive 1.8 s;
         s = setParamValue Range 4.0 s;
         s = setParamValue Blend 1.0 s;
         s = setParamValue Volume 1.0 s;
         s = setParamValue MidFreq 900.0 s;
         s = setParamValue MidGain 9.0 s;
         s = setParamValue HighPassFreq 200.0 s;
         s = setParamValue LowPassFreq 4500.0 s;
         s = setParamValue DistortionType 0.5 s
     in s)"

definition case4 :: "parameter_store \<Rightarrow> parameter_store" where
  "case4 s = (
     let s = setParamValue Drive 0.8 s;
         s = setParamValue Range 1.5 s;
         s = setParamValue Blend 0.85 s;
         s = setParamValue Volume 1.1 s;
         s = setParamValue MidFreq 1100.0 s;
         s = setParamValue MidGain 5.0 s;
         s = setParamValue HighPassFreq 80.0 s;
         s = setParamValue LowPassFreq 8000.0 s;
         s = setParamValue DistortionType 0.0 s
     in s)"

text \<open>
  \<^verbatim>\<open>setCurrentProgram\<close>: the property is set to the clamped index; the switch is on
  the argument itself and has no default label, so an index matching no label writes
  no parameter.
\<close>

definition setCurrentProgram :: "int \<Rightarrow> parameter_store \<Rightarrow> parameter_store" where
  "setCurrentProgram index s = (
     let s = s\<lparr> currentProgram := Some (jlimit 0 (getNumPrograms - 1) index) \<rparr>
     in if index = 0 then case0 s
        else if index = 1 then case1 s
        else if index = 2 then case2 s
        else if index = 3 then case3 s
        else if index = 4 then case4 s
        else s)"

section \<open>The per-sample stage of \<^verbatim>\<open>processBlock\<close>\<close>

text \<open>\<^verbatim>\<open>static_cast<int> (*parameters.getRawParameterValue (ParamIDs::distortionType) * 2)\<close>.\<close>

definition decode_distortionType :: "real \<Rightarrow> int" where
  "decode_distortionType v = static_cast_int (v * 2)"

text \<open>
  The waveshaper: \<^verbatim>\<open>float distorted = clean * preGain\<close> followed by the
  \<^verbatim>\<open>switch (distortionType)\<close>, which has no default label: for a mode other than
  0, 1, 2 the value stays \<^verbatim>\<open>clean * preGain\<close>.
\<close>

definition waveshaper :: "int \<Rightarrow> real \<Rightarrow> real \<Rightarrow> real \<Rightarrow> real" where
  "waveshaper distortionType drive preGain clean = (
     let distorted = clean * preGain
     in if distortionType = 0 then
          tanh (distorted * (1.0 + drive)) * 0.9
        else if distortionType = 1 then
          (let distorted = tanh (distorted * 0.6) * 1.8
           in jlimit (- 0.9) 0.9 (distorted * (1.0 + drive * 2.0)))
        else if distortionType = 2 then
          (let folded = distorted - 0.2 * distorted * distorted * distorted;
               distorted = sin (folded * pi * (0.5 + drive * 0.5))
           in jlimit (- 0.9) 0.9 distorted)
        else distorted)"

text \<open>The body of the loop over the samples of a channel: noise gate, waveshaper,
  volume scaling and blend, for the sample value \<open>x\<close> read from \<^verbatim>\<open>data[sample]\<close>
  (\<open>range'\<close> is the source's \<^verbatim>\<open>range\<close>).\<close>

definition process_sample :: "int \<Rightarrow> real \<Rightarrow> real \<Rightarrow> real \<Rightarrow> real \<Rightarrow> real \<Rightarrow> real" where
  "process_sample distortionType drive range' blend volume x = (
     let clean = x;
         threshold = 0.01;
         gate = (if \<bar>clean\<bar> < threshold then 0.1 else 1.0);
         clean = clean * gate;
         preGain = range' * 5.0;
         distorted = waveshaper distortionType drive preGain clean;
         distorted = distorted * (0.5 + volume * 1.5)
     in (distorted * blend + clean * (1.0 - blend)) * gate)"

subsection \<open>The specification's wording of the same stage\<close>

text \<open>The three modes of \<section>4.2 and the mode numbers they are decoded from.\<close>

datatype mode = A | B | C

fun mode_number :: "mode \<Rightarrow> int" where
  "mode_number A = 0"
| "mode_number B = 1"
| "mode_number C = 2"

definition clamp_spec :: "real \<Rightarrow> real \<Rightarrow> real \<Rightarrow> real" where
  "clamp_spec y lo hi = max lo (min hi y)"

text \<open>\<open>distort_spec\<close> follows the three formulas of \<section>4.2 word for word.\<close>

fun distort_spec :: "real \<Rightarrow> mode \<Rightarrow> real \<Rightarrow> real \<Rightarrow> real" where
  "distort_spec x A drive preGain = tanh (x * preGain * (1 + drive)) * 0.9"
| "distort_spec x B drive preGain =
     clamp_spec (tanh (x * preGain * 0.6) * 1.8 * (1 + 2 * drive)) (- 0.9) 0.9"
| "distort_spec x C drive preGain =
     (let u = x * preGain; f = u - 0.2 * u ^ 3
      in clamp_spec (sin (f * pi * (0.5 + 0.5 * drive))) (- 0.9) 0.9)"

text \<open>The gate factor of \<section>4.2: 0.1 below the threshold 0.01, and 1 otherwise.\<close>

definition gate_factor_spec :: "real \<Rightarrow> real" where
  "gate_factor_spec x = (if \<bar>x\<bar> < 0.01 then 0.1 else 1)"

text \<open>The decoding of \<section>3: \<open>mode = round (value \<times> 2)\<close>.\<close>

definition mode_spec :: "real \<Rightarrow> int" where
  "mode_spec v = round (v * 2)"

section \<open>The block pipeline\<close>

subsection \<open>The DSP library operations the processor calls\<close>

text \<open>
  The filter design functions, the IIR filter and the oversampler belong to the JUCE
  library. They are parameters of the model: \<open>'c\<close> is the type of a coefficient set,
  \<open>'s\<close> the state (delay line) of one single-channel filter, \<open>'o\<close> the state of the
  oversampler and \<open>'a\<close> the type of a sample.
  \<^item> \<open>filterProcess c s xs\<close> runs one single-channel IIR filter with coefficients \<open>c\<close>
    from state \<open>s\<close> over the samples \<open>xs\<close> and returns the filtered samples and the
    new state;
  \<^item> \<open>processSamplesUp os buffer\<close> returns the oversampled block;
  \<^item> \<open>processSamplesDown os block buffer\<close> returns the new contents of the buffer.
\<close>

record ('a, 'c, 's, 'o) dsp =
  makeHighPass :: "real \<Rightarrow> real \<Rightarrow> 'c"
  makeLowPass :: "real \<Rightarrow> real \<Rightarrow> real \<Rightarrow> 'c"
  makePeakFilter :: "real \<Rightarrow> real \<Rightarrow> real \<Rightarrow> real \<Rightarrow> 'c"
  filterProcess :: "'c \<Rightarrow> 's \<Rightarrow> 'a list \<Rightarrow> 'a list \<times> 's"
  processSamplesUp :: "'o \<Rightarrow> 'a list list \<Rightarrow> 'a list list \<times> 'o"
  processSamplesDown :: "'o \<Rightarrow> 'a list list \<Rightarrow> 'a list list \<Rightarrow> 'a list list \<times> 'o"

text \<open>\<^verbatim>\<open>juce::Decibels::decibelsToGain\<close>, with its default floor of -100 dB.\<close>

definition decibelsToGain :: "real \<Rightarrow> real" where
  "decibelsToGain decibels = (if decibels > - 100 then 10 powr (decibels * 0.05) else 0)"

text \<open>
  \<^verbatim>\<open>juce::dsp::ProcessorDuplicator::process (context)\<close>: the context is built from a
  whole block, and the duplicator runs its filter number \<open>i\<close> over channel \<open>i\<close> of that
  block, for every channel of the block. A duplicator is modelled by the list of the
  states of its filters; channels it has no filter for are left as they are.
\<close>

fun duplicator_process ::
  "('s \<Rightarrow> 'a list \<Rightarrow> 'a list \<times> 's) \<Rightarrow> 's list \<Rightarrow> 'a list list \<Rightarrow> 'a list list \<times> 's list" where
  "duplicator_process f (s # ss) (c # cs) =
     (let (c', s') = f s c;
          (cs', ss') = duplicator_process f ss cs
      in (c' # cs', s' # ss'))"
| "duplicator_process f ss [] = ([], ss)"
| "duplicator_process f [] cs = (cs, [])"

subsection \<open>The processor\<close>

text \<open>The members of \<^verbatim>\<open>WasabiAudioProcessor\<close> that \<^verbatim>\<open>processBlock\<close> uses, and the
  channel counts of its bus layout.\<close>

record ('s, 'o) processor =
  highPassFilter :: "'s list"
  lowPassFilter :: "'s list"
  midBoostFilter :: "'s list"
  oversampler :: "'o"
  sampleRate :: real
  totalNumInputChannels :: nat
  totalNumOutputChannels :: nat

text \<open>\<^verbatim>\<open>buffer.clear (i, 0, buffer.getNumSamples())\<close>.\<close>

definition clear_channel :: "nat \<Rightarrow> real list list \<Rightarrow> real list list" where
  "clear_channel i buffer =
     (if i < length buffer then buffer[i := map (\<lambda>_. 0) (buffer ! i)] else buffer)"

text \<open>
  One iteration of \<^verbatim>\<open>for (int channel = 0; channel < numInputChannels; ++channel)\<close>.
  \<^verbatim>\<open>context\<close> is built from \<^verbatim>\<open>oversampledBlock\<close>, the whole block; \<^verbatim>\<open>data\<close> points
  to the one channel \<^verbatim>\<open>channel\<close>, whose samples the inner loop replaces one by one
  by \<open>stage\<close> of their value.
\<close>

definition channel_iteration ::
  "('a, 'c, 's, 'o) dsp \<Rightarrow> ('a \<Rightarrow> 'a) \<Rightarrow> 'c \<Rightarrow> 'c \<Rightarrow> 'c \<Rightarrow> nat
   \<Rightarrow> 'a list list \<times> 's list \<times> 's list \<times> 's list
   \<Rightarrow> 'a list list \<times> 's list \<times> 's list \<times> 's list" where
  "channel_iteration env stage hpCoeffs midCoeffs lpCoeffs channel st = (
     let (block, hp, mid, lp) = st;
         (block, hp) = duplicator_process (filterProcess env hpCoeffs) hp block;
         (block, mid) = duplicator_process (filterProcess env midCoeffs) mid block;
         block = (if channel < length block
                  then block[channel := map stage (block ! channel)] else block);
         (block, lp) = duplicator_process (filterProcess env lpCoeffs) lp block
     in (block, hp, mid, lp))"

definition channel_loop ::
  "('a, 'c, 's, 'o) dsp \<Rightarrow> ('a \<Rightarrow> 'a) \<Rightarrow> 'c \<Rightarrow> 'c \<Rightarrow> 'c \<Rightarrow> nat
   \<Rightarrow> 'a list list \<times> 's list \<times> 's list \<times> 's list
   \<Rightarrow> 'a list list \<times> 's list \<times> 's list \<times> 's list" where
  "channel_loop env stage hpCoeffs midCoeffs lpCoeffs numInputChannels st =
     fold (channel_iteration env stage hpCoeffs midCoeffs lpCoeffs) [0 ..< numInputChannels] st"

text \<open>\<^verbatim>\<open>processBlock\<close>: the buffer is a list of channels, each a list of samples.\<close>

definition processBlock ::
  "(real, 'c, 's, 'o) dsp \<Rightarrow> parameter_store \<Rightarrow> ('s, 'o) processor \<Rightarrow> real list list
   \<Rightarrow> real list list \<times> ('s, 'o) processor" where
  "processBlock env parameters p buffer = (
     let numInputChannels = totalNumInputChannels p;
         numOutputChannels = totalNumOutputChannels p
     in if rawValue parameters Bypass > 0.5 then (buffer, p)
        else
          let buffer = fold clear_channel [numInputChannels ..< numOutputChannels] buffer;
              drive = rawValue parameters Drive;
              range' = rawValue parameters Range;
              blend = rawValue parameters Blend;
              volume = rawValue parameters Volume;
              midFreq = rawValue parameters MidFreq;
              midGain = rawValue parameters MidGain;
              highPassFreq = rawValue parameters HighPassFreq;
              lowPassFreq = rawValue parameters LowPassFreq;
              distortionType = decode_distortionType (rawValue parameters DistortionType);
              hpCoeffs = makeHighPass env (sampleRate p) highPassFreq;
              lpCoeffs = makeLowPass env (sampleRate p) lowPassFreq 0.7;
              midCoeffs = makePeakFilter env (sampleRate p) midFreq 1.0 (decibelsToGain midGain);
              (oversampledBlock, os) = processSamplesUp env (oversampler p) buffer;
              (oversampledBlock, hp, mid, lp) =
                 channel_loop env (process_sample distortionType drive range' blend volume)
                   hpCoeffs midCoeffs lpCoeffs numInputChannels
                   (oversampledBlock, highPassFilter p, midBoostFilter p, lowPassFilter p);
              (buffer, os) = processSamplesDown env os oversampledBlock buffer
          in (buffer, p\<lparr> highPassFilter := hp, lowPassFilter := lp,
                         midBoostFilter := mid, oversampler := os \<rparr>))"

subsection \<open>Two instances of the library operations\<close>

text \<open>
  An instrumented instance: a sample is the list of the stages it has passed through,
  in order; a coefficient set is the name of its filter; every filter appends its name
  to each sample it processes.
\<close>

datatype stage = HighPass | MidBoost | Nonlinear | LowPass

definition trace_dsp :: "(stage list, stage, unit, unit) dsp" where
  "trace_dsp = \<lparr>
     makeHighPass = (\<lambda>_ _. HighPass),
     makeLowPass = (\<lambda>_ _ _. LowPass),
     makePeakFilter = (\<lambda>_ _ _ _. MidBoost),
     filterProcess = (\<lambda>c s xs. (map (\<lambda>t. t @ [c]) xs, s)),
     processSamplesUp = (\<lambda>os buffer. (buffer, os)),
     processSamplesDown = (\<lambda>os block buffer. (block, os)) \<rparr>"

text \<open>
  A pass-through instance on real samples: every filter returns its input, the
  oversampler repeats each sample once on the way up and keeps every second sample on
  the way down.
\<close>

fun repeat_each :: "'a list \<Rightarrow> 'a list" where
  "repeat_each [] = []"
| "repeat_each (x # xs) = x # x # repeat_each xs"

fun every_second :: "'a list \<Rightarrow> 'a list" where
  "every_second (x # y # xs) = x # every_second xs"
| "every_second xs = xs"

definition passthrough_dsp :: "(real, unit, unit, unit) dsp" where
  "passthrough_dsp = \<lparr>
     makeHighPass = (\<lambda>_ _. ()),
     makeLowPass = (\<lambda>_ _ _. ()),
     makePeakFilter = (\<lambda>_ _ _ _. ()),
     filterProcess = (\<lambda>c s xs. (xs, s)),
     processSamplesUp = (\<lambda>os buffer. (map repeat_each buffer, os)),
     processSamplesDown = (\<lambda>os block buffer. (map every_second block, os)) \<rparr>"

definition mono_processor :: "(unit, unit) processor" where
  "mono_processor = \<lparr>
     highPassFilter = [()], lowPassFilter = [()], midBoostFilter = [()],
     oversampler = (), sampleRate = 44100.0,
     totalNumInputChannels = 1, totalNumOutputChannels = 1 \<rparr>"

text \<open>
  The bypass parameter is a \<^verbatim>\<open>juce::AudioParameterBool\<close> (a boolean held as a 0/1
  float): its raw value is 0.0 for false and 1.0 for true. The constructor sets it to
  false, and the only write in the sources is the bypass button of the editor,
  \<^verbatim>\<open>setValueNotifyingHost (bypassButton.getToggleState() ? 1.0f : 0.0f)\<close>.
\<close>

definition bypass_is_bool :: "parameter_store \<Rightarrow> bool" where
  "bypass_is_bool s = (rawValue s Bypass = 0.0 \<or> rawValue s Bypass = 1.0)"

section \<open>The waveshaper on binary32 values\<close>

text \<open>
  A C++ \<^verbatim>\<open>float\<close> is a finite number, an infinity or NaN. This second embedding of
  the waveshaper keeps these special values: an operation whose exact result reaches
  the overflow threshold returns an infinity, and the operations on infinities and NaN
  are the IEEE 754 ones. Finite results are kept exact: rounding to 24 significant
  bits, underflow and the sign of zero are not modelled.
\<close>

datatype f32 = Finite real | PInf | NInf | NaN

text \<open>Under round-to-nearest a result becomes an infinity when its magnitude reaches
  \<open>2\<^sup>1\<^sup>2\<^sup>8 - 2\<^sup>1\<^sup>0\<^sup>3\<close>, half a unit in the last place above the largest finite
  value \<open>2\<^sup>1\<^sup>2\<^sup>8 - 2\<^sup>1\<^sup>0\<^sup>4\<close> (about 3.4e38).\<close>

definition overflow_threshold :: real where
  "overflow_threshold = 2 ^ 128 - 2 ^ 103"

definition round_overflow :: "real \<Rightarrow> f32" where
  "round_overflow r =
     (if overflow_threshold \<le> r then PInf
      else if r \<le> - overflow_threshold then NInf
      else Finite r)"

fun fneg :: "f32 \<Rightarrow> f32" where
  "fneg (Finite a) = Finite (- a)"
| "fneg PInf = NInf"
| "fneg NInf = PInf"
| "fneg NaN = NaN"

text \<open>Multiplication: an infinity times zero is NaN.\<close>

fun fmul :: "f32 \<Rightarrow> f32 \<Rightarrow> f32" where
  "fmul (Finite a) (Finite b) = round_overflow (a * b)"
| "fmul (Finite a) PInf = (if a = 0 then NaN else if 0 < a then PInf else NInf)"
| "fmul (Finite a) NInf = (if a = 0 then NaN else if 0 < a then NInf else PInf)"
| "fmul PInf (Finite b) = (if b = 0 then NaN else if 0 < b then PInf else NInf)"
| "fmul NInf (Finite b) = (if b = 0 then NaN else if 0 < b then NInf else PInf)"
| "fmul PInf PInf = PInf"
| "fmul PInf NInf = NInf"
| "fmul NInf PInf = NInf"
| "fmul NInf NInf = PInf"
| "fmul NaN b = NaN"
| "fmul a NaN = NaN"

text \<open>Addition: the sum of the two opposite infinities is NaN. Subtraction adds the
  negated operand.\<close>

fun fadd :: "f32 \<Rightarrow> f32 \<Rightarrow> f32" where
  "fadd (Finite a) (Finite b) = round_overflow (a + b)"
| "fadd (Finite a) PInf = PInf"
| "fadd (Finite a) NInf = NInf"
| "fadd PInf (Finite b) = PInf"
| "fadd NInf (Finite b) = NInf"
| "fadd PInf PInf = PInf"
| "fadd NInf NInf = NInf"
| "fadd PInf NInf = NaN"
| "fadd NInf PInf = NaN"
| "fadd NaN b = NaN"
| "fadd a NaN = NaN"

definition fsub :: "f32 \<Rightarrow> f32 \<Rightarrow> f32" where
  "fsub a b = fadd a (fneg b)"

text \<open>\<^verbatim>\<open>std::tanh\<close> and \<^verbatim>\<open>std::sin\<close>: the hyperbolic tangent of an infinity is 1 or
  -1, the sine of an infinity is NaN.\<close>

fun ftanh :: "f32 \<Rightarrow> f32" where
  "ftanh (Finite a) = Finite (tanh a)"
| "ftanh PInf = Finite 1"
| "ftanh NInf = Finite (- 1)"
| "ftanh NaN = NaN"

fun fsin :: "f32 \<Rightarrow> f32" where
  "fsin (Finite a) = Finite (sin a)"
| "fsin PInf = NaN"
| "fsin NInf = NaN"
| "fsin NaN = NaN"

text \<open>The comparison \<^verbatim>\<open><\<close>: false whenever an operand is NaN.\<close>

fun flt :: "f32 \<Rightarrow> f32 \<Rightarrow> bool" where
  "flt (Finite a) (Finite b) = (a < b)"
| "flt (Finite a) PInf = True"
| "flt NInf (Finite b) = True"
| "flt NInf PInf = True"
| "flt a b = False"

text \<open>\<^verbatim>\<open>juce::jlimit\<close> on floats, the body of \<open>jlimit\<close> with the float comparison: both
  comparisons fail on NaN, which is returned as it is.\<close>

definition jlimit_f32 :: "f32 \<Rightarrow> f32 \<Rightarrow> f32 \<Rightarrow> f32" where
  "jlimit_f32 lowerLimit upperLimit v =
     (if flt v lowerLimit then lowerLimit else if flt upperLimit v then upperLimit else v)"

text \<open>The waveshaper, operation by operation as in \<open>waveshaper\<close>, on binary32 values.\<close>

definition waveshaper_f32 :: "int \<Rightarrow> f32 \<Rightarrow> f32 \<Rightarrow> f32 \<Rightarrow> f32" where
  "waveshaper_f32 distortionType drive preGain clean = (
     let distorted = fmul clean preGain
     in if distortionType = 0 then
          fmul (ftanh (fmul distorted (fadd (Finite 1.0) drive))) (Finite 0.9)
        else if distortionType = 1 then
          (let distorted = fmul (ftanh (fmul distorted (Finite 0.6))) (Finite 1.8)
           in jlimit_f32 (Finite (- 0.9)) (Finite 0.9)
                (fmul distorted (fadd (Finite 1.0) (fmul drive (Finite 2.0)))))
        else if distortionType = 2 then
          (let folded = fsub distorted
                 (fmul (fmul (fmul (Finite 0.2) distorted) distorted) distorted);
               distorted = fsin (fmul (fmul folded (Finite pi))
                                      (fadd (Finite 0.5) (fmul drive (Finite 0.5))))
           in jlimit_f32 (Finite (- 0.9)) (Finite 0.9) distorted)
        else distorted)"


section \<open>Properties\<close>

subsection \<open>Helper lemmas\<close>

lemma jlimit_real_clamp: "lo \<le> hi \<Longrightarrow> jlimit lo hi (v::real) = max lo (min hi v)"
  by (simp add: jlimit_def max_def min_def)


lemma setParamValue_raw:
  "rawValue (setParamValue pid v s) =
     (rawValue s)(pid := convertFrom0to1 pid (convertTo0to1 pid v))"
  by (simp add: setParamValue_def setValueNotifyingHost_def)

lemma setParamValue_currentProgram:
  "currentProgram (setParamValue pid v s) = currentProgram s"
  by (simp add: setParamValue_def setValueNotifyingHost_def)

text \<open>Setting a parameter to a value of its declared range stores that value.\<close>

lemma clamped_roundtrip:
  "param_min pid \<le> v \<Longrightarrow> v \<le> param_max pid \<Longrightarrow> param_min pid < param_max pid \<Longrightarrow>
   convertFrom0to1 pid (convertTo0to1 pid v) = v"
  by (simp add: convertFrom0to1_def convertTo0to1_def jlimit_def field_simps)

lemmas case_defs = case0_def case1_def case2_def case3_def case4_def

lemma cases_currentProgram:
  "currentProgram (case0 s) = currentProgram s"
  "currentProgram (case1 s) = currentProgram s"
  "currentProgram (case2 s) = currentProgram s"
  "currentProgram (case3 s) = currentProgram s"
  "currentProgram (case4 s) = currentProgram s"
  by (simp_all add: case_defs Let_def setParamValue_currentProgram)

lemma cases_bypass:
  "rawValue (case0 s) Bypass = rawValue s Bypass"
  "rawValue (case1 s) Bypass = rawValue s Bypass"
  "rawValue (case2 s) Bypass = rawValue s Bypass"
  "rawValue (case3 s) Bypass = rawValue s Bypass"
  "rawValue (case4 s) Bypass = rawValue s Bypass"
  by (simp_all add: case_defs Let_def setParamValue_raw)

lemma upt_2: "[0..<2] = [0, Suc 0]"
  by (simp add: numeral_2_eq_2)

text \<open>The raw bypass value stays 0 or 1 under every write of the sources.\<close>

lemma bypass_is_bool_initial: "bypass_is_bool initial_store"
  by (simp add: bypass_is_bool_def initial_store_def)

lemma bypass_is_bool_button:
  "bypass_is_bool (setValueNotifyingHost Bypass (if toggleState then 1.0 else 0.0) s)"
  by (simp add: bypass_is_bool_def setValueNotifyingHost_def convertFrom0to1_def jlimit_def)

lemma bypass_is_bool_setCurrentProgram:
  "bypass_is_bool (setCurrentProgram index s) = bypass_is_bool s"
  by (simp add: bypass_is_bool_def setCurrentProgram_def Let_def cases_bypass)

text \<open>Results below the overflow threshold are finite.\<close>

lemma round_overflow_finite: "\<bar>r\<bar> < overflow_threshold \<Longrightarrow> round_overflow r = Finite r"
  by (auto simp: round_overflow_def)

lemma threshold_lower: "2 * 10 ^ 36 < overflow_threshold"
  by (simp add: overflow_threshold_def)

lemma round_overflow_small: "\<bar>r\<bar> \<le> 2 * 10 ^ 36 \<Longrightarrow> round_overflow r = Finite r"
  using threshold_lower by (intro round_overflow_finite) linarith

lemma abs_mult_le: "\<bar>a\<bar> \<le> p \<Longrightarrow> \<bar>b\<bar> \<le> q \<Longrightarrow> \<bar>a * b\<bar> \<le> p * (q::real)"
  by (simp add: abs_mult mult_mono)



lemma jlimit_f32_finite:
  "jlimit_f32 (Finite (- c)) (Finite c) (Finite v) = Finite (jlimit (- c) c v)"
  by (simp add: jlimit_f32_def jlimit_def)


lemma waveshaper_f32_fold:
  "waveshaper_f32 2 drive preGain clean =
     jlimit_f32 (Finite (- (9 / 10))) (Finite (9 / 10))
       (fsin (fmul (fmul (fsub (fmul clean preGain)
                 (fmul (fmul (fmul (Finite (2 / 10)) (fmul clean preGain)) (fmul clean preGain))
                    (fmul clean preGain)))
               (Finite pi))
             (fadd (Finite (5 / 10)) (fmul drive (Finite (5 / 10))))))"
  by (simp add: waveshaper_f32_def Let_def)

lemma fold_finite:
  assumes "0 \<le> drive" "drive \<le> 2" and ub: "\<bar>u\<bar> \<le> 10 ^ 12"
  shows "fmul (fmul (fsub (Finite u)
                 (fmul (fmul (fmul (Finite (2 / 10)) (Finite u)) (Finite u)) (Finite u)))
               (Finite pi))
             (fadd (Finite (5 / 10)) (fmul (Finite drive) (Finite (5 / 10))))
         = Finite ((u - 2 / 10 * u * u * u) * pi * (5 / 10 + drive * (5 / 10)))"
proof -
  have b1: "\<bar>2 / 10 * u\<bar> \<le> 2 / 10 * 10 ^ 12"
    by (rule abs_mult_le) (use ub in simp_all)
  have r1: "round_overflow (2 / 10 * u) = Finite (2 / 10 * u)"
    using b1 by (intro round_overflow_small) simp
  have b2: "\<bar>2 / 10 * u * u\<bar> \<le> 2 / 10 * 10 ^ 12 * 10 ^ 12"
    using b1 ub by (rule abs_mult_le)
  have r2: "round_overflow (2 / 10 * u * u) = Finite (2 / 10 * u * u)"
    using b2 by (intro round_overflow_small) simp
  have b3: "\<bar>2 / 10 * u * u * u\<bar> \<le> 2 / 10 * 10 ^ 12 * 10 ^ 12 * 10 ^ 12"
    using b2 ub by (rule abs_mult_le)
  have r3: "round_overflow (2 / 10 * u * u * u) = Finite (2 / 10 * u * u * u)"
    using b3 by (intro round_overflow_small) simp
  define f where "f = u - 2 / 10 * u * u * u"
  have bf: "\<bar>f\<bar> \<le> 3 * 10 ^ 35"
    using b3 ub unfolding f_def by simp
  have ff: "u + - (2 / 10 * u * u * u) = f"
    by (simp add: f_def)
  have rf: "round_overflow f = Finite f"
    using bf by (intro round_overflow_small) simp
  have pb: "\<bar>pi\<bar> \<le> 4" using pi_less_4 pi_gt_zero by simp
  have b4: "\<bar>f * pi\<bar> \<le> 3 * 10 ^ 35 * 4"
    using bf pb by (rule abs_mult_le)
  have r4: "round_overflow (f * pi) = Finite (f * pi)"
    using b4 by (intro round_overflow_small) simp
  have k1: "round_overflow (drive * (5 / 10)) = Finite (drive * (5 / 10))"
    using assms(1,2) by (intro round_overflow_small) simp
  have k2: "round_overflow (5 / 10 + drive * (5 / 10)) = Finite (5 / 10 + drive * (5 / 10))"
    using assms(1,2) by (intro round_overflow_small) simp
  have kb: "\<bar>5 / 10 + drive * (5 / 10)\<bar> \<le> 3 / 2"
    using assms(1,2) by simp
  have b5: "\<bar>f * pi * (5 / 10 + drive * (5 / 10))\<bar> \<le> 3 * 10 ^ 35 * 4 * (3 / 2)"
    using b4 kb by (rule abs_mult_le)
  have r5: "round_overflow (f * pi * (5 / 10 + drive * (5 / 10)))
            = Finite (f * pi * (5 / 10 + drive * (5 / 10)))"
    using b5 by (intro round_overflow_small) simp
  have "fmul (fmul (fsub (Finite u)
                 (fmul (fmul (fmul (Finite (2 / 10)) (Finite u)) (Finite u)) (Finite u)))
               (Finite pi))
             (fadd (Finite (5 / 10)) (fmul (Finite drive) (Finite (5 / 10))))
        = Finite (f * pi * (5 / 10 + drive * (5 / 10)))"
    unfolding fsub_def
    by (simp only: fmul.simps fadd.simps fneg.simps r1 r2 r3 ff rf r4 k1 k2 r5)
  then show ?thesis
    by (simp only: f_def)
qed

lemma waveshaper_f32_fold_finite:
  assumes "0 \<le> drive" "drive \<le> 2" and u: "\<bar>x * preGain\<bar> \<le> 10 ^ 12"
  shows "waveshaper_f32 2 (Finite drive) (Finite preGain) (Finite x)
         = Finite (jlimit (- (9 / 10)) (9 / 10)
             (sin ((x * preGain - 2 / 10 * (x * preGain) * (x * preGain) * (x * preGain))
                   * pi * (5 / 10 + drive * (5 / 10)))))"
proof -
  have r0: "round_overflow (x * preGain) = Finite (x * preGain)"
    using u by (intro round_overflow_small) simp
  have e0: "fmul (Finite x) (Finite preGain) = Finite (x * preGain)"
    by (simp add: r0)
  show ?thesis
    by (simp only: waveshaper_f32_fold e0 fold_finite [OF assms(1,2) u] fsin.simps
        jlimit_f32_finite)
qed


text \<open>
  Where the gated input times the pre-gain has magnitude at most \<open>10\<^sup>1\<^sup>2\<close> and the drive
  is in its declared range, no operation overflows and the embedding on binary32 values
  returns the value of the exact one.
\<close>

lemma waveshaper_f32_exact:
  assumes d: "0 \<le> drive" "drive \<le> 2" and u: "\<bar>x * preGain\<bar> \<le> 10 ^ 12"
  shows "waveshaper_f32 0 (Finite drive) (Finite preGain) (Finite x)
           = Finite (waveshaper 0 drive preGain x)"
    and "waveshaper_f32 1 (Finite drive) (Finite preGain) (Finite x)
           = Finite (waveshaper 1 drive preGain x)"
    and "waveshaper_f32 2 (Finite drive) (Finite preGain) (Finite x)
           = Finite (waveshaper 2 drive preGain x)"
proof -
  have tb: "\<bar>tanh (y::real)\<bar> \<le> 1" for y
    using tanh_real_lt_1 [of y] tanh_real_gt_neg1 [of y] by (simp add: abs_le_iff less_imp_le)
  have r0: "round_overflow (x * preGain) = Finite (x * preGain)"
    using u by (intro round_overflow_small) simp
  have a1: "round_overflow (1 + drive) = Finite (1 + drive)"
    using d by (intro round_overflow_small) simp
  have "\<bar>x * preGain * (1 + drive)\<bar> \<le> 10 ^ 12 * 3"
    by (rule abs_mult_le) (use u d in simp_all)
  then have a2: "round_overflow (x * preGain * (1 + drive)) = Finite (x * preGain * (1 + drive))"
    by (intro round_overflow_small) simp
  have a3: "round_overflow (tanh (x * preGain * (1 + drive)) * (9 / 10))
            = Finite (tanh (x * preGain * (1 + drive)) * (9 / 10))"
    using tb [of "x * preGain * (1 + drive)"] by (intro round_overflow_small) (simp add: abs_mult)
  show "waveshaper_f32 0 (Finite drive) (Finite preGain) (Finite x)
           = Finite (waveshaper 0 drive preGain x)"
    using r0 a1 a2 a3 by (simp add: waveshaper_f32_def waveshaper_def Let_def)
  have "\<bar>x * preGain * (6 / 10)\<bar> \<le> 10 ^ 12 * (6 / 10)"
    by (rule abs_mult_le) (use u in simp_all)
  then have b1: "round_overflow (x * preGain * (6 / 10)) = Finite (x * preGain * (6 / 10))"
    by (intro round_overflow_small) simp
  define t where "t = tanh (x * preGain * (6 / 10))"
  have tt: "\<bar>t\<bar> \<le> 1" unfolding t_def by (rule tb)
  have b2: "round_overflow (t * (18 / 10)) = Finite (t * (18 / 10))"
    using tt by (intro round_overflow_small) (simp add: abs_mult)
  have k1: "round_overflow (drive * 2) = Finite (drive * 2)"
    using d by (intro round_overflow_small) simp
  have k2: "round_overflow (1 + drive * 2) = Finite (1 + drive * 2)"
    using d by (intro round_overflow_small) simp
  have "\<bar>t * (18 / 10)\<bar> \<le> 1 * (18 / 10)"
    using tt by (simp add: abs_mult)
  moreover have "\<bar>1 + drive * 2\<bar> \<le> 5"
    using d by simp
  ultimately have "\<bar>t * (18 / 10) * (1 + drive * 2)\<bar> \<le> 1 * (18 / 10) * 5"
    by (rule abs_mult_le)
  then have b3: "round_overflow (t * (18 / 10) * (1 + drive * 2))
                 = Finite (t * (18 / 10) * (1 + drive * 2))"
    by (intro round_overflow_small) simp
  show "waveshaper_f32 1 (Finite drive) (Finite preGain) (Finite x)
           = Finite (waveshaper 1 drive preGain x)"
    using r0 b1 b2 k1 k2 b3 unfolding t_def
    by (simp add: waveshaper_f32_def waveshaper_def Let_def jlimit_f32_finite)
  show "waveshaper_f32 2 (Finite drive) (Finite preGain) (Finite x)
           = Finite (waveshaper 2 drive preGain x)"
    using waveshaper_f32_fold_finite [OF d u] by (simp add: waveshaper_def Let_def)
qed

text \<open>With one channel, the loop runs the stages once and in the order high-pass,
  mid-boost, per-sample stage, low-pass.\<close>

lemma mono_channel_order:
  "channel_loop env stage hpC midC lpC 1 ([c], [h], [m], [l]) =
     (let (a, h') = filterProcess env hpC h c;
          (b, m') = filterProcess env midC m a;
          (e, l') = filterProcess env lpC l (map stage b)
      in ([e], [h'], [m'], [l']))"
  by (simp add: channel_loop_def channel_iteration_def Let_def split: prod.splits)

text \<open>With two channels, both passes of the loop filter both channels, whatever the
  filters are: after its first pass through the three sections (the per-sample stage
  between the last two for channel 0 only), each channel goes through the three
  sections again.\<close>

lemma stereo_channel_passes:
  "channel_loop env stage hpC midC lpC 2 ([c0, c1], [h0, h1], [m0, m1], [l0, l1]) =
     (let (a0, h0) = filterProcess env hpC h0 c0;
          (a1, h1) = filterProcess env hpC h1 c1;
          (a0, m0) = filterProcess env midC m0 a0;
          (a1, m1) = filterProcess env midC m1 a1;
          (a0, l0) = filterProcess env lpC l0 (map stage a0);
          (a1, l1) = filterProcess env lpC l1 a1;
          (b0, h0) = filterProcess env hpC h0 a0;
          (b1, h1) = filterProcess env hpC h1 a1;
          (b0, m0) = filterProcess env midC m0 b0;
          (b1, m1) = filterProcess env midC m1 b1;
          (b0, l0) = filterProcess env lpC l0 b0;
          (b1, l1) = filterProcess env lpC l1 (map stage b1)
      in ([b0, b1], [h0, h1], [m0, m1], [l0, l1]))"
  by (simp add: channel_loop_def channel_iteration_def upt_2 Let_def split: prod.splits)

subsection \<open>The block pipeline\<close>

text \<open>
  C1. The stages each sample passes through when two channels are processed, recorded
  by the instrumented instance: both passes of the channel loop filter both channels,
  so channel 0 goes through high-pass, mid-boost, the per-sample stage and low-pass,
  and then again through high-pass, mid-boost and low-pass; channel 1 goes through
  high-pass, mid-boost and low-pass before its own high-pass, mid-boost, per-sample
  stage and low-pass. Every filter section is applied twice to every sample.
\<close>

theorem stereo_filters_applied_twice:
  "channel_loop trace_dsp (\<lambda>t. t @ [Nonlinear]) HighPass MidBoost LowPass 2
      ([[[]], [[]]], [(), ()], [(), ()], [(), ()])
   = ([[[HighPass, MidBoost, Nonlinear, LowPass, HighPass, MidBoost, LowPass]],
       [[HighPass, MidBoost, LowPass, HighPass, MidBoost, Nonlinear, LowPass]]],
      [(), ()], [(), ()], [(), ()])"
  by (simp add: channel_loop_def channel_iteration_def trace_dsp_def upt_2)

text \<open>
  C3. When the bypass flag, a boolean held as the raw value 0 or 1, is at least 0.5,
  \<^verbatim>\<open>processBlock\<close> returns the buffer as it received it, whatever the buffer, the
  other parameters and the DSP operations are: no sample is modified, no channel is
  cleared, and no filter or oversampler state changes.
\<close>

theorem bypass_leaves_buffer:
  "bypass_is_bool parameters \<Longrightarrow> rawValue parameters Bypass \<ge> 0.5 \<Longrightarrow>
   processBlock env parameters p buffer = (buffer, p)"
  by (auto simp: processBlock_def Let_def bypass_is_bool_def)

text \<open>The theorem at the store the bypass button produces, on a two-sample mono buffer.\<close>

theorem bypass_leaves_buffer_witness:
  "bypass_is_bool (setValueNotifyingHost Bypass 1.0 initial_store)
   \<and> rawValue (setValueNotifyingHost Bypass 1.0 initial_store) Bypass \<ge> 0.5
   \<and> processBlock passthrough_dsp (setValueNotifyingHost Bypass 1.0 initial_store)
        mono_processor [[1, 0.5]] = ([[1, 0.5]], mono_processor)"
proof -
  have b: "bypass_is_bool (setValueNotifyingHost Bypass 1.0 initial_store)"
    using bypass_is_bool_button [of True initial_store] by simp
  have h: "rawValue (setValueNotifyingHost Bypass 1.0 initial_store) Bypass \<ge> 0.5"
    by (simp add: setValueNotifyingHost_def convertFrom0to1_def jlimit_def)
  from b h bypass_leaves_buffer [OF b h] show ?thesis by blast
qed

subsection \<open>The per-sample stage\<close>

text \<open>
  C2. The waveshaper of the code computes, for the mode numbers 0, 1, 2 of modes A, B, C,
  exactly the function of (gated input, mode, drive, preGain) that the specification
  gives: \<open>tanh (x\<cdot>preGain\<cdot>(1+drive))\<cdot>0.9\<close> for A, the clamped
  \<open>tanh (x\<cdot>preGain\<cdot>0.6)\<cdot>1.8\<cdot>(1+2\<cdot>drive)\<close> for B, and the clamped
  \<open>sin (f\<cdot>\<pi>\<cdot>(0.5+0.5\<cdot>drive))\<close> with \<open>f = u - 0.2\<cdot>u\<^sup>3\<close>, \<open>u = x\<cdot>preGain\<close> for C.
\<close>

theorem waveshaper_refines_spec:
  "waveshaper (mode_number m) drive preGain x = distort_spec x m drive preGain"
proof (cases m)
  case A
  then show ?thesis by (simp add: waveshaper_def Let_def algebra_simps)
next
  case B
  then show ?thesis
    by (simp add: waveshaper_def Let_def clamp_spec_def jlimit_real_clamp mult.commute[of drive])
next
  case C
  have "x * preGain - 0.2 * (x * preGain) * (x * preGain) * (x * preGain)
        = x * preGain - 0.2 * (x * preGain) ^ 3"
    by (simp add: power3_eq_cube algebra_simps)
  with C show ?thesis
    by (simp add: waveshaper_def Let_def clamp_spec_def jlimit_real_clamp mult.commute[of drive])
qed

text \<open>
  C4. The per-sample output is the distorted value scaled by \<open>0.5 + 1.5\<cdot>volume\<close> and
  blended with the gated clean value, all multiplied by the gate factor; the waveshaper
  is applied to the input multiplied by the gate factor; the gate factor is 0.1 when
  \<open>\<bar>x\<bar> < 0.01\<close> and 1 otherwise, so below the threshold the factor 0.1 is applied
  before the nonlinearity and again to the mixed output.
\<close>

theorem process_sample_gate_mix:
  "process_sample distortionType drive range' blend volume x =
     (waveshaper distortionType drive (range' * 5.0) (x * gate_factor_spec x)
        * (0.5 + 1.5 * volume) * blend
      + (x * gate_factor_spec x) * (1 - blend)) * gate_factor_spec x"
  by (simp add: process_sample_def gate_factor_spec_def Let_def algebra_simps)

text \<open>
  C5. The mode the processor decodes from the values 0.3 and 0.8 of the distortionType
  parameter: the cast truncates, so 0.3 gives mode 0 and 0.8 gives mode 1, where
  rounding \<open>value \<times> 2\<close> gives 1 and 2.
\<close>

theorem decode_truncates:
  "decode_distortionType 0.3 = 0 \<and> mode_spec 0.3 = 1
   \<and> decode_distortionType 0.8 = 1 \<and> mode_spec 0.8 = 2"
  by (simp add: decode_distortionType_def static_cast_int_def mode_spec_def round_def)




subsection \<open>Presets\<close>

text \<open>
  C6. \<^verbatim>\<open>setCurrentProgram (7)\<close> on the initial store: the stored program index is the
  clamped one, 4, but no parameter is written: every raw value is still its default
  (drive 0.5), whereas preset 4 sets the drive to 0.8.
\<close>

theorem out_of_range_index_writes_nothing:
  "rawValue (setCurrentProgram 7 initial_store) = param_default
   \<and> getCurrentProgram (setCurrentProgram 7 initial_store) = 4
   \<and> rawValue (setCurrentProgram 4 initial_store) Drive = 0.8
   \<and> rawValue (setCurrentProgram 7 initial_store) Drive = 0.5"
  by (simp add: setCurrentProgram_def Let_def case4_def setParamValue_raw clamped_roundtrip
      initial_store_def getCurrentProgram_def getNumPrograms_def jlimit_def)

text \<open>
  C7. After \<^verbatim>\<open>setCurrentProgram (2)\<close>, from any store, the nine continuous parameters
  read back as drive 1.2, range 2.5, blend 0.9, volume 1.3, midFreq 1200, midGain 7,
  highPassFreq 120, lowPassFreq 7000 and distortionType 1.0.
\<close>

theorem sushi_roll_roundtrip:
  "rawValue (setCurrentProgram 2 s) Drive = 1.2
   \<and> rawValue (setCurrentProgram 2 s) Range = 2.5
   \<and> rawValue (setCurrentProgram 2 s) Blend = 0.9
   \<and> rawValue (setCurrentProgram 2 s) Volume = 1.3
   \<and> rawValue (setCurrentProgram 2 s) MidFreq = 1200
   \<and> rawValue (setCurrentProgram 2 s) MidGain = 7
   \<and> rawValue (setCurrentProgram 2 s) HighPassFreq = 120
   \<and> rawValue (setCurrentProgram 2 s) LowPassFreq = 7000
   \<and> rawValue (setCurrentProgram 2 s) DistortionType = 1.0"
  by (simp add: setCurrentProgram_def Let_def case2_def setParamValue_raw clamped_roundtrip)

text \<open>
  C9. Applying a preset leaves the value of the bypass parameter as it was: the value
  read after \<^verbatim>\<open>setCurrentProgram\<close> equals the value read before, for every index
  (so for each of 0..4): only \<^verbatim>\<open>setParamValue\<close> writes a raw value, and it is never called
  on the bypass parameter.
\<close>

theorem setCurrentProgram_bypass_untouched:
  "rawValue (setCurrentProgram index s) Bypass = rawValue s Bypass"
  by (simp add: setCurrentProgram_def Let_def cases_bypass)

text \<open>
  C10. After \<^verbatim>\<open>setCurrentProgram\<close> with any integer argument, \<^verbatim>\<open>getCurrentProgram\<close>
  returns the argument clamped to 0..4, that is \<open>max 0 (min 4 index)\<close>, hence one of
  0, 1, 2, 3, 4, also when the argument is negative or at least 5.
\<close>

theorem getCurrentProgram_after_set:
  "getCurrentProgram (setCurrentProgram index s) = max 0 (min 4 index)
   \<and> getCurrentProgram (setCurrentProgram index s) \<in> {0, 1, 2, 3, 4}"
proof -
  have cp: "currentProgram (setCurrentProgram index s) = Some (jlimit 0 4 index)"
    by (simp add: setCurrentProgram_def Let_def getNumPrograms_def cases_currentProgram)
  have cl: "jlimit 0 4 index = max 0 (min 4 index)"
    by (simp add: jlimit_def max_def min_def)
  have rng: "max 0 (min 4 index) \<in> {0, 1, 2, 3, 4::int}"
    by (simp add: max_def min_def; arith)
  from cp cl rng show ?thesis
    by (simp add: getCurrentProgram_def)
qed

end
